theory Spec2Isabelle
  imports Main
begin

section \<open>Values, entities and errors\<close>

text \<open>
  A stored document is a JavaScript object: a finite map from attribute names to values.
  An attribute that is missing (\<open>undefined\<close>) is \<open>None\<close>; an attribute holding
  \<open>null\<close> is \<open>Some Null\<close>.
\<close>

datatype val = Null | Num int | Str string | Arr "val list" | Obj "(string \<times> val) list"

type_synonym entity = "string \<Rightarrow> val option"

text \<open>JavaScript truthiness of a value that is present (\<open>!!v\<close>, \<open>if (v)\<close>).\<close>

fun truthy :: "val \<Rightarrow> bool" where
  "truthy Null = False"
| "truthy (Num n) = (n \<noteq> 0)"
| "truthy (Str s) = (s \<noteq> [])"
| "truthy (Arr xs) = True"
| "truthy (Obj kvs) = True"

text \<open>
  Every failure of the access layer and of the service is a \<open>BadRequestException\<close>;
  the constructors are the messages it is built from, with the arguments the code passes.
\<close>

datatype error =
    DocumentNotOfOrganization string string int
  | EntityNotFound string string
  | CategoryNotFound string
  | SubCategoryNotFound string
  | ActionTypeNotFound string

section \<open>The store client\<close>

text \<open>
  Modelled from the spec: the document store client (the query builder of the
  \<open>dynamoose\<close> model, its \<open>save\<close> and its \<open>update\<close>) is an external collaborator
  that is not among the sources. A table is the list of its items in the order the
  organization index scans them; the store promises key-ordered scans, and nothing ties
  that order to the time of creation. The model puts a new item at the end of the list.
  A query selects the items whose key attribute equals the key value; \<open>startAt\<close> resumes
  strictly after the item matching the given key; \<open>limit\<close> bounds the number of items
  that are evaluated; filter conditions are applied to the evaluated items; the last
  evaluated key is returned when the limit stopped the scan.
\<close>

datatype condition = NotExists string | Eq string val

fun holds :: "condition \<Rightarrow> entity \<Rightarrow> bool" where
  "holds (NotExists a) e = (e a = None)"
| "holds (Eq a v) e = (e a = Some v)"

record query =
  keyAttr :: string
  keyValue :: val
  limitOpt :: "nat option"
  startAtOpt :: "(string \<times> val) list option"
  filters :: "condition list"
  descending :: bool

record response =
  items :: "entity list"
  lastKey :: "entity option"

definition queryEq :: "string \<Rightarrow> val \<Rightarrow> query" where
  "queryEq a v =
     \<lparr>keyAttr = a, keyValue = v, limitOpt = None, startAtOpt = None, filters = [],
      descending = False\<rparr>"

definition limit :: "nat \<Rightarrow> query \<Rightarrow> query" where
  "limit n q = q\<lparr>limitOpt := Some n\<rparr>"

definition startAt :: "(string \<times> val) list \<Rightarrow> query \<Rightarrow> query" where
  "startAt k q = q\<lparr>startAtOpt := Some k\<rparr>"

definition filterBy :: "condition \<Rightarrow> query \<Rightarrow> query" where
  "filterBy c q = q\<lparr>filters := filters q @ [c]\<rparr>"

definition sortAscending :: "query \<Rightarrow> query" where
  "sortAscending q = q\<lparr>descending := False\<rparr>"

definition matchesKey :: "(string \<times> val) list \<Rightarrow> entity \<Rightarrow> bool" where
  "matchesKey k e = list_all (\<lambda>(a, v). e a = Some v) k"

definition afterKey :: "(string \<times> val) list \<Rightarrow> entity list \<Rightarrow> entity list" where
  "afterKey k xs = (case dropWhile (\<lambda>e. \<not> matchesKey k e) xs of [] \<Rightarrow> [] | _ # rest \<Rightarrow> rest)"

definition partitionOf :: "query \<Rightarrow> entity list \<Rightarrow> entity list" where
  "partitionOf q tbl =
     (let p = filter (\<lambda>e. e (keyAttr q) = Some (keyValue q)) tbl
      in if descending q then rev p else p)"

definition remainingOf :: "query \<Rightarrow> entity list \<Rightarrow> entity list" where
  "remainingOf q tbl =
     (case startAtOpt q of
        None \<Rightarrow> partitionOf q tbl
      | Some k \<Rightarrow> afterKey k (partitionOf q tbl))"

definition evaluatedOf :: "query \<Rightarrow> entity list \<Rightarrow> entity list" where
  "evaluatedOf q tbl =
     (case limitOpt q of
        None \<Rightarrow> remainingOf q tbl
      | Some n \<Rightarrow> take n (remainingOf q tbl))"

definition exec :: "query \<Rightarrow> entity list \<Rightarrow> response" where
  "exec q tbl =
     \<lparr>items = filter (\<lambda>e. list_all (\<lambda>c. holds c e) (filters q)) (evaluatedOf q tbl),
      lastKey =
        (case limitOpt q of
           None \<Rightarrow> None
         | Some n \<Rightarrow>
             (if 0 < n \<and> n \<le> length (remainingOf q tbl)
              then Some (last (evaluatedOf q tbl)) else None))\<rparr>"

text \<open>
  \<open>save\<close> puts an item under its identifier: it replaces the item with the same
  identifier, and appends the item when there is none. The store stamps
  \<open>createdAt\<close> and \<open>updatedAt\<close> (the schema's \<open>timestamps\<close>).
\<close>

definition stampNew :: "int \<Rightarrow> entity \<Rightarrow> entity" where
  "stampNew stamp e = e(''createdAt'' \<mapsto> Num stamp, ''updatedAt'' \<mapsto> Num stamp)"

definition save :: "entity \<Rightarrow> entity list \<Rightarrow> entity list" where
  "save e tbl =
     (if list_ex (\<lambda>x. x ''id'' = e ''id'') tbl
      then map (\<lambda>x. if x ''id'' = e ''id'' then e else x) tbl
      else tbl @ [e])"

text \<open>
  \<open>update key {$SET: data}\<close> merges the supplied attributes into the item stored under
  the key's identifier and stamps \<open>updatedAt\<close>; it returns the item as updated.
\<close>

definition setAttrs :: "entity \<Rightarrow> entity \<Rightarrow> int \<Rightarrow> entity" where
  "setAttrs e data stamp = (e ++ data)(''updatedAt'' \<mapsto> Num stamp)"

definition storeUpdate :: "entity \<Rightarrow> entity \<Rightarrow> int \<Rightarrow> entity list \<Rightarrow> entity list" where
  "storeUpdate key data stamp tbl =
     map (\<lambda>x. if x ''id'' = key ''id'' then setAttrs x data stamp else x) tbl"

section \<open>BaseDal\<close>

record dal =
  modelName :: string
  table :: "entity list"

record paginationQuery =
  itemsPerPage :: nat
  lastId :: "val option"

record paginationResult =
  resultLastId :: "val option"
  resultData :: "entity list"

definition paginatedFind :: "int \<Rightarrow> paginationQuery \<Rightarrow> dal \<Rightarrow> paginationResult" where
  "paginatedFind organizationId pagination d =
     (let queryBuilder = limit (itemsPerPage pagination) (queryEq ''organizationId'' (Num organizationId));
          queryBuilder =
            (case lastId pagination of
               Some l \<Rightarrow>
                 (if truthy l
                  then startAt [(''id'', l), (''organizationId'', Num organizationId)] queryBuilder
                  else queryBuilder)
             | None \<Rightarrow> queryBuilder);
          queryBuilder = filterBy (NotExists ''deletedAt'') queryBuilder;
          response = exec queryBuilder (table d)
      in \<lparr>resultLastId = (case lastKey response of None \<Rightarrow> None | Some k \<Rightarrow> k ''id''),
          resultData = items response\<rparr>)"

definition find_dal :: "int \<Rightarrow> dal \<Rightarrow> entity list" where
  "find_dal organizationId d =
     items (exec (sortAscending (filterBy (Eq ''deletedAt'' Null)
                    (queryEq ''organizationId'' (Num organizationId)))) (table d))"

definition findById :: "int \<Rightarrow> string \<Rightarrow> dal \<Rightarrow> error + entity option" where
  "findById organizationId ident d =
     (case items (exec (limit 1 (queryEq ''id'' (Str ident))) (table d)) of
        [] \<Rightarrow> Inr None
      | entity # _ \<Rightarrow>
          (if entity ''organizationId'' \<noteq> Some (Num organizationId)
           then Inl (DocumentNotOfOrganization (modelName d) ident organizationId)
           else Inr (Some entity)))"

text \<open>
  \<open>new this.model({...data, id: uuid.v4(), organizationId})\<close> followed by \<open>save\<close>.
  The value of \<open>uuid.v4()\<close> and the store's time stamp are arguments. The \<open>null\<close>
  default of deletedAt leaves the attribute unset.
\<close>

definition create :: "int \<Rightarrow> entity \<Rightarrow> string \<Rightarrow> int \<Rightarrow> dal \<Rightarrow> entity \<times> dal" where
  "create organizationId data uuid stamp d =
     (let entity = stampNew stamp (data(''id'' \<mapsto> Str uuid, ''organizationId'' \<mapsto> Num organizationId))
      in (entity, d\<lparr>table := save entity (table d)\<rparr>))"

definition update :: "int \<Rightarrow> string \<Rightarrow> entity \<Rightarrow> int \<Rightarrow> dal \<Rightarrow> (error + entity) \<times> dal" where
  "update organizationId ident data stamp d =
     (case findById organizationId ident d of
        Inl err \<Rightarrow> (Inl err, d)
      | Inr None \<Rightarrow> (Inl (EntityNotFound (modelName d) ident), d)
      | Inr (Some entity) \<Rightarrow>
          (Inr (setAttrs entity data stamp),
           d\<lparr>table := storeUpdate entity data stamp (table d)\<rparr>))"

text \<open>
  \<open>update\<close> with \<open>{deletedAt: Date.now()}\<close>: \<open>now\<close> is the value of \<open>Date.now()\<close>,
  \<open>stamp\<close> the time stamp the store sets on the update.
\<close>

definition delete :: "int \<Rightarrow> string \<Rightarrow> int \<Rightarrow> int \<Rightarrow> dal \<Rightarrow> (error + bool) \<times> dal" where
  "delete organizationId ident now stamp d =
     (case update organizationId ident (Map.empty(''deletedAt'' \<mapsto> Num now)) stamp d of
        (Inl err, d') \<Rightarrow> (Inl err, d')
      | (Inr _, d') \<Rightarrow> (Inr True, d'))"

section \<open>AuditService\<close>

text \<open>
  The create payload: the three optional foreign keys, and the remaining fields
  (userId, method, url, changes, response, facilityId, userRoles) as an object.
\<close>

record createAuditLogDto =
  categoryId :: "string option"
  subCategoryId :: "string option"
  actionTypeId :: "string option"
  payload :: entity

record auditService =
  auditLogDal :: dal
  categoryDal :: dal
  subCategoryDal :: dal
  actionTypeDal :: dal

text \<open>
  The object mapper is an external collaborator: its two projections are parameters.
\<close>

record mapper =
  toModel :: "createAuditLogDto \<Rightarrow> entity"
  toDto :: "entity \<Rightarrow> entity"

datatype refKind = CategoryRef | SubCategoryRef | ActionTypeRef

text \<open>
  A promise is modelled settled, together with the lookups it issued against the store:
  \<open>Inl\<close> is a rejection, \<open>Inr\<close> a fulfilment.
\<close>

type_synonym 'a promise = "(refKind \<times> string) list \<times> (error + 'a)"

text \<open>\<open>!!auditLogDto.categoryId\<close>: a missing key and the empty string are both falsy.\<close>

definition supplied :: "string option \<Rightarrow> bool" where
  "supplied ref = (case ref of None \<Rightarrow> False | Some ident \<Rightarrow> ident \<noteq> [])"

text \<open>
  Modelled from the spec: \<open>useConditionalPromise\<close> and \<open>promiseAllSettled\<close> come from
  the package \<open>@bondsports/general\<close>, which is not among the sources. A conditional
  promise runs its lookup only when the condition holds and is otherwise fulfilled with
  no value. \<open>promiseAllSettled\<close> waits for every promise. What it makes of a rejected
  promise is not fixed by the spec, so it is a parameter: either the slot of a rejected
  promise holds no value, or the first rejection (in argument order) is thrown once all
  promises have settled.
\<close>

datatype settlePolicy = RejectedAsUndefined | RethrowFirstRejection

definition useConditionalPromise :: "(unit \<Rightarrow> 'a option promise) \<Rightarrow> bool \<Rightarrow> 'a option promise" where
  "useConditionalPromise f condition = (if condition then f () else ([], Inr None))"

fun firstRejection :: "(error + 'a) list \<Rightarrow> error option" where
  "firstRejection [] = None"
| "firstRejection (Inl err # rs) = Some err"
| "firstRejection (Inr v # rs) = firstRejection rs"

definition slotValue :: "error + 'a option \<Rightarrow> 'a option" where
  "slotValue r = (case r of Inl err \<Rightarrow> None | Inr v \<Rightarrow> v)"

definition promiseAllSettled :: "settlePolicy \<Rightarrow> 'a option promise list \<Rightarrow> 'a option list promise" where
  "promiseAllSettled pol ps =
     (concat (map fst ps),
      (case pol of
         RejectedAsUndefined \<Rightarrow> Inr (map (slotValue \<circ> snd) ps)
       | RethrowFirstRejection \<Rightarrow>
           (case firstRejection (map snd ps) of
              Some err \<Rightarrow> Inl err
            | None \<Rightarrow> Inr (map (slotValue \<circ> snd) ps))))"

text \<open>
  The lookup \<open>() => dal.findById(organizationId, ref)\<close>. It is only run when the key is
  supplied; for a missing key the model gives no value.
\<close>

definition findRef :: "refKind \<Rightarrow> dal \<Rightarrow> int \<Rightarrow> string option \<Rightarrow> unit \<Rightarrow> entity option promise" where
  "findRef kind d organizationId ref u =
     (case ref of
        None \<Rightarrow> ([], Inr None)
      | Some ident \<Rightarrow> ([(kind, ident)], findById organizationId ident d))"

text \<open>Array destructuring: a position beyond the array is \<open>undefined\<close>.\<close>

definition slot :: "'a option list \<Rightarrow> nat \<Rightarrow> 'a option" where
  "slot results i = (if i < length results then results ! i else None)"

text \<open>\<open>if (!category && auditLogDto.categoryId) throw ...\<close>\<close>

definition checkResolved :: "(string \<Rightarrow> error) \<Rightarrow> entity option \<Rightarrow> string option \<Rightarrow> error option" where
  "checkResolved notFound resolved ref =
     (case ref of
        None \<Rightarrow> None
      | Some ident \<Rightarrow> (if resolved = None \<and> ident \<noteq> [] then Some (notFound ident) else None))"

definition createAuditLog ::
  "settlePolicy \<Rightarrow> mapper \<Rightarrow> int \<Rightarrow> createAuditLogDto \<Rightarrow> string \<Rightarrow> int \<Rightarrow> auditService
     \<Rightarrow> (refKind \<times> string) list \<times> (error + entity) \<times> auditService" where
  "createAuditLog pol m organizationId auditLogDto uuid stamp svc =
     (case promiseAllSettled pol
        [useConditionalPromise
           (findRef CategoryRef (categoryDal svc) organizationId (categoryId auditLogDto))
           (supplied (categoryId auditLogDto)),
         useConditionalPromise
           (findRef SubCategoryRef (subCategoryDal svc) organizationId (subCategoryId auditLogDto))
           (supplied (subCategoryId auditLogDto)),
         useConditionalPromise
           (findRef ActionTypeRef (actionTypeDal svc) organizationId (actionTypeId auditLogDto))
           (supplied (actionTypeId auditLogDto))] of
        (lookups, Inl err) \<Rightarrow> (lookups, Inl err, svc)
      | (lookups, Inr results) \<Rightarrow>
          (case checkResolved CategoryNotFound (slot results 0) (categoryId auditLogDto) of
             Some err \<Rightarrow> (lookups, Inl err, svc)
           | None \<Rightarrow>
          (case checkResolved SubCategoryNotFound (slot results 1) (subCategoryId auditLogDto) of
             Some err \<Rightarrow> (lookups, Inl err, svc)
           | None \<Rightarrow>
          (case checkResolved ActionTypeNotFound (slot results 2) (actionTypeId auditLogDto) of
             Some err \<Rightarrow> (lookups, Inl err, svc)
           | None \<Rightarrow>
               (let (document, d') = create organizationId (toModel m auditLogDto) uuid stamp (auditLogDal svc)
                in (lookups, Inr (toDto m document), svc\<lparr>auditLogDal := d'\<rparr>))))))"

section \<open>Vocabulary of the properties\<close>

text \<open>
  The schemas declare \<open>id\<close> a required string and the hash key of the table, so a table
  holds at most one item per identifier and no identifier is empty.
\<close>

definition validId :: "entity \<Rightarrow> bool" where
  "validId e = (case e ''id'' of Some (Str s) \<Rightarrow> s \<noteq> [] | _ \<Rightarrow> False)"

definition wf_table :: "entity list \<Rightarrow> bool" where
  "wf_table tbl = (list_all validId tbl \<and> distinct (map (\<lambda>e. e ''id'') tbl))"

text \<open>The items of an organization, in the order of the table.\<close>

definition orgPartition :: "int \<Rightarrow> entity list \<Rightarrow> entity list" where
  "orgPartition organizationId tbl =
     filter (\<lambda>e. e ''organizationId'' = Some (Num organizationId)) tbl"

text \<open>An entity is live when its soft-delete marker is unset.\<close>

definition live :: "entity \<Rightarrow> bool" where
  "live e = (e ''deletedAt'' = None)"

text \<open>The items paginatedFind scans for a given cursor, before the limit and the filter.\<close>

definition cursorRemaining :: "int \<Rightarrow> val option \<Rightarrow> entity list \<Rightarrow> entity list" where
  "cursorRemaining organizationId cursor tbl =
     (case cursor of
        None \<Rightarrow> orgPartition organizationId tbl
      | Some l \<Rightarrow>
          (if truthy l
           then afterKey [(''id'', l), (''organizationId'', Num organizationId)]
                  (orgPartition organizationId tbl)
           else orgPartition organizationId tbl))"

text \<open>
  The caller's loop of the pagination property: start with no cursor, call paginatedFind
  with the returned cursor until no cursor is returned, and concatenate the pages. The
  fuel bounds the number of calls; running out of fuel is \<open>None\<close>.
\<close>

fun paginateAll :: "nat \<Rightarrow> int \<Rightarrow> nat \<Rightarrow> val option \<Rightarrow> dal \<Rightarrow> entity list option" where
  "paginateAll 0 organizationId pageSize cursor d = None"
| "paginateAll (Suc fuel) organizationId pageSize cursor d =
     (let page = paginatedFind organizationId \<lparr>itemsPerPage = pageSize, lastId = cursor\<rparr> d
      in case resultLastId page of
           None \<Rightarrow> Some (resultData page)
         | Some c \<Rightarrow>
             map_option (\<lambda>more. resultData page @ more)
               (paginateAll fuel organizationId pageSize (Some c) d))"

text \<open>The three conditional promises createAuditLog hands to \<open>promiseAllSettled\<close>.\<close>

definition refPromises :: "auditService \<Rightarrow> int \<Rightarrow> createAuditLogDto \<Rightarrow> entity option promise list" where
  "refPromises svc organizationId dto =
     [useConditionalPromise
        (findRef CategoryRef (categoryDal svc) organizationId (categoryId dto))
        (supplied (categoryId dto)),
      useConditionalPromise
        (findRef SubCategoryRef (subCategoryDal svc) organizationId (subCategoryId dto))
        (supplied (subCategoryId dto)),
      useConditionalPromise
        (findRef ActionTypeRef (actionTypeDal svc) organizationId (actionTypeId dto))
        (supplied (actionTypeId dto))]"

text \<open>
  The lookups a payload requests, in the order category, sub-category, action-type: one
  for each foreign key that is supplied.
\<close>

definition refLookups :: "refKind \<Rightarrow> string option \<Rightarrow> (refKind \<times> string) list" where
  "refLookups kind ref =
     (case ref of None \<Rightarrow> [] | Some ident \<Rightarrow> (if ident \<noteq> [] then [(kind, ident)] else []))"

definition requested :: "createAuditLogDto \<Rightarrow> (refKind \<times> string) list" where
  "requested dto =
     refLookups CategoryRef (categoryId dto) @ refLookups SubCategoryRef (subCategoryId dto) @
     refLookups ActionTypeRef (actionTypeId dto)"

text \<open>
  A requested reference fails when its lookup yields no entity, be it that findById
  returns none or that it raises (\<open>refRejects\<close>).
\<close>

definition refFailure :: "(string \<Rightarrow> error) \<Rightarrow> dal \<Rightarrow> int \<Rightarrow> string option \<Rightarrow> error option" where
  "refFailure notFound d organizationId ref =
     (case ref of
        None \<Rightarrow> None
      | Some ident \<Rightarrow>
          (if ident = [] then None
           else (case findById organizationId ident d of
                   Inr (Some entity) \<Rightarrow> None
                 | _ \<Rightarrow> Some (notFound ident))))"

definition refRejects :: "dal \<Rightarrow> int \<Rightarrow> string option \<Rightarrow> bool" where
  "refRejects d organizationId ref =
     (case ref of
        None \<Rightarrow> False
      | Some ident \<Rightarrow>
          (if ident = [] then False
           else (case findById organizationId ident d of Inl err \<Rightarrow> True | Inr v \<Rightarrow> False)))"

text \<open>The first failing reference in the order category, sub-category, action-type.\<close>

definition firstFailure :: "auditService \<Rightarrow> int \<Rightarrow> createAuditLogDto \<Rightarrow> error option" where
  "firstFailure svc organizationId dto =
     (case refFailure CategoryNotFound (categoryDal svc) organizationId (categoryId dto) of
        Some err \<Rightarrow> Some err
      | None \<Rightarrow>
     (case refFailure SubCategoryNotFound (subCategoryDal svc) organizationId (subCategoryId dto) of
        Some err \<Rightarrow> Some err
      | None \<Rightarrow> refFailure ActionTypeNotFound (actionTypeDal svc) organizationId (actionTypeId dto)))"



definition anyRejects :: "auditService \<Rightarrow> int \<Rightarrow> createAuditLogDto \<Rightarrow> bool" where
  "anyRejects svc organizationId dto =
     (refRejects (categoryDal svc) organizationId (categoryId dto) \<or>
      refRejects (subCategoryDal svc) organizationId (subCategoryId dto) \<or>
      refRejects (actionTypeDal svc) organizationId (actionTypeId dto))"

section \<open>Sample data\<close>

definition exampleEntity :: "string \<Rightarrow> int \<Rightarrow> entity" where
  "exampleEntity ident organizationId =
     Map.empty(''id'' \<mapsto> Str ident, ''organizationId'' \<mapsto> Num organizationId)"

definition exampleTable :: "entity list" where
  "exampleTable =
     [exampleEntity ''a'' 1, exampleEntity ''b'' 2,
      (exampleEntity ''c'' 1)(''deletedAt'' \<mapsto> Num 7), exampleEntity ''d'' 1]"

definition exampleDal :: dal where
  "exampleDal = \<lparr>modelName = ''categories'', table = exampleTable\<rparr>"

definition examplePayload :: entity where
  "examplePayload =
     Map.empty(''id'' \<mapsto> Str ''x'', ''organizationId'' \<mapsto> Num 99, ''name'' \<mapsto> Str ''Billing'')"

definition exampleService :: auditService where
  "exampleService =
     \<lparr>auditLogDal = \<lparr>modelName = ''audit_logs'', table = []\<rparr>,
      categoryDal = exampleDal,
      subCategoryDal = \<lparr>modelName = ''audit_log_sub_categories'', table = [exampleEntity ''s'' 2]\<rparr>,
      actionTypeDal = \<lparr>modelName = ''action_types'', table = []\<rparr>\<rparr>"

definition exampleMapper :: mapper where
  "exampleMapper = \<lparr>toModel = payload, toDto = (\<lambda>e. e)\<rparr>"

text \<open>A table whose scan order is not the order of the creation times.\<close>

definition unorderedDal :: dal where
  "unorderedDal =
     \<lparr>modelName = ''categories'',
      table = [(exampleEntity ''d'' 1)(''createdAt'' \<mapsto> Num 4),
               (exampleEntity ''a'' 1)(''createdAt'' \<mapsto> Num 1)]\<rparr>"


section \<open>Evaluating the queries of BaseDal\<close>

lemma take_one_filter_find:
  "(case take (Suc 0) (filter P xs) of [] \<Rightarrow> a | x # _ \<Rightarrow> f x) =
   (case List.find P xs of None \<Rightarrow> a | Some x \<Rightarrow> f x)"
  by (induction xs) simp_all

lemma findById_find:
  "findById organizationId ident d =
     (case List.find (\<lambda>e. e ''id'' = Some (Str ident)) (table d) of
        None \<Rightarrow> Inr None
      | Some entity \<Rightarrow>
          (if entity ''organizationId'' \<noteq> Some (Num organizationId)
           then Inl (DocumentNotOfOrganization (modelName d) ident organizationId)
           else Inr (Some entity)))"
  unfolding findById_def exec_def evaluatedOf_def remainingOf_def partitionOf_def
    limit_def queryEq_def
  by (simp add: take_one_filter_find)

section \<open>findById and the organization check\<close>

text \<open>
  C1 (as the code has it). When the first item stored under the identifier belongs to
  another organization, findById does not return it: it raises the request error built
  from the document-not-of-organization message, with the model's name, the identifier
  and the requested organization. When no item is stored under the identifier it raises
  nothing and returns no entity. The two outcomes differ.
\<close>

theorem findById_other_organization:
  "(List.find (\<lambda>e. e ''id'' = Some (Str ident)) (table d) = Some entity \<and>
      entity ''organizationId'' \<noteq> Some (Num organizationId)
      \<longrightarrow> findById organizationId ident d =
            Inl (DocumentNotOfOrganization (modelName d) ident organizationId)) \<and>
   (List.find (\<lambda>e. e ''id'' = Some (Str ident)) (table d) = None
      \<longrightarrow> findById organizationId ident d = Inr None)"
  by (simp add: findById_find)

text \<open>
  C1 (as stated) fails: organization 2 asks for identifier a, which organization 1 owns,
  and for identifier b, which nobody owns. The first call raises, the second returns
  no entity.
\<close>

theorem findById_other_organization_counterexample:
  "findById 2 ''a''
      \<lparr>modelName = ''categories'',
       table = [Map.empty(''id'' \<mapsto> Str ''a'', ''organizationId'' \<mapsto> Num 1)]\<rparr>
     = Inl (DocumentNotOfOrganization ''categories'' ''a'' 2) \<and>
   findById 2 ''b''
      \<lparr>modelName = ''categories'',
       table = [Map.empty(''id'' \<mapsto> Str ''a'', ''organizationId'' \<mapsto> Num 1)]\<rparr>
     = Inr None"
  by (simp add: findById_find)

theorem findById_other_organization_witness:
  "findById 1 ''b'' exampleDal = Inl (DocumentNotOfOrganization ''categories'' ''b'' 1) \<and>
   findById 1 ''zz'' exampleDal = Inr None"
proof -
  have stored: "List.find (\<lambda>e. e ''id'' = Some (Str ''b'')) (table exampleDal) =
      Some (exampleEntity ''b'' 2)"
    by (simp add: exampleDal_def exampleTable_def exampleEntity_def)
  have other: "exampleEntity ''b'' 2 ''organizationId'' \<noteq> Some (Num 1)"
    by (simp add: exampleEntity_def)
  have name: "modelName exampleDal = ''categories''"
    by (simp add: exampleDal_def)
  have unknown: "List.find (\<lambda>e. e ''id'' = Some (Str ''zz'')) (table exampleDal) = None"
    by (simp add: exampleDal_def exampleTable_def exampleEntity_def)
  from stored other name unknown show ?thesis
    using findById_other_organization [of "''b''" exampleDal "exampleEntity ''b'' 2" 1]
      findById_other_organization [of "''zz''" exampleDal "exampleEntity ''b'' 2" 1]
    by simp
qed

lemma live_fun: "live = (\<lambda>e. e ''deletedAt'' = None)"
  by (rule ext) (simp add: live_def)

lemma paginatedFind_eval:
  "paginatedFind organizationId q d =
     \<lparr>resultLastId =
        (if 0 < itemsPerPage q \<and>
            itemsPerPage q \<le> length (cursorRemaining organizationId (lastId q) (table d))
         then last (take (itemsPerPage q) (cursorRemaining organizationId (lastId q) (table d))) ''id''
         else None),
      resultData =
        filter live (take (itemsPerPage q) (cursorRemaining organizationId (lastId q) (table d)))\<rparr>"
  by (cases "lastId q")
    (simp_all add: paginatedFind_def exec_def evaluatedOf_def remainingOf_def partitionOf_def
      limit_def queryEq_def startAt_def filterBy_def cursorRemaining_def orgPartition_def live_fun)

lemma find_dal_eval:
  "find_dal organizationId d =
     filter (\<lambda>e. e ''deletedAt'' = Some Null) (orgPartition organizationId (table d))"
  by (simp add: find_dal_def exec_def evaluatedOf_def remainingOf_def partitionOf_def
    queryEq_def sortAscending_def filterBy_def orgPartition_def)

lemma set_afterKey: "set (afterKey k xs) \<subseteq> set xs"
proof
  fix e
  assume "e \<in> set (afterKey k xs)"
  then have "e \<in> set (dropWhile (\<lambda>e. \<not> matchesKey k e) xs)"
    by (cases "dropWhile (\<lambda>e. \<not> matchesKey k e) xs") (simp_all add: afterKey_def)
  then show "e \<in> set xs"
    by (rule set_dropWhileD)
qed

lemma set_cursorRemaining:
  "set (cursorRemaining organizationId cursor tbl) \<subseteq> set (orgPartition organizationId tbl)"
  using set_afterKey by (auto simp: cursorRemaining_def split: option.splits)

lemma orgPartition_organization:
  "e \<in> set (orgPartition organizationId tbl) \<Longrightarrow> e ''organizationId'' = Some (Num organizationId)"
  by (simp add: orgPartition_def)

lemma paginatedFind_subset:
  "set (resultData (paginatedFind organizationId q d))
     \<subseteq> {e \<in> set (orgPartition organizationId (table d)). live e}"
proof -
  have "set (take (itemsPerPage q) (cursorRemaining organizationId (lastId q) (table d)))
          \<subseteq> set (orgPartition organizationId (table d))"
    using set_take_subset set_cursorRemaining by fast
  then show ?thesis by (auto simp: paginatedFind_eval)
qed

lemma dropWhile_distinct_nth:
  "distinct (map f xs) \<Longrightarrow> i < length xs \<Longrightarrow>
   dropWhile (\<lambda>x. f x \<noteq> f (xs ! i)) xs = drop i xs"
proof (induction xs arbitrary: i)
  case Nil
  then show ?case by simp
next
  case (Cons x xs)
  show ?case
  proof (cases i)
    case 0
    then show ?thesis by simp
  next
    case (Suc j)
    with Cons.prems have "j < length xs" and "f (xs ! j) \<in> f ` set xs" and "f x \<notin> f ` set xs"
      by auto
    then have "f x \<noteq> f (xs ! j)" by metis
    with Cons Suc show ?thesis by simp
  qed
qed

lemma afterKey_nth:
  assumes "distinct (map (\<lambda>e. e ''id'') p)" and "i < length p" and "(p ! i) ''id'' = Some l"
    and "\<forall>e\<in>set p. e ''organizationId'' = Some (Num organizationId)"
  shows "afterKey [(''id'', l), (''organizationId'', Num organizationId)] p = drop (Suc i) p"
proof -
  have "dropWhile (\<lambda>e. \<not> matchesKey [(''id'', l), (''organizationId'', Num organizationId)] e) p =
        dropWhile (\<lambda>e. e ''id'' \<noteq> (p ! i) ''id'') p"
    using assms(3,4) by (intro dropWhile_cong) (auto simp: matchesKey_def)
  also have "\<dots> = drop i p"
    using assms(1,2) by (rule dropWhile_distinct_nth)
  finally show ?thesis
    using assms(2) by (simp add: afterKey_def Cons_nth_drop_Suc [symmetric])
qed

lemma wf_table_partition:
  "wf_table tbl \<Longrightarrow> distinct (map (\<lambda>e. e ''id'') (orgPartition organizationId tbl))"
  by (simp add: wf_table_def orgPartition_def distinct_map_filter)

lemma wf_table_validId:
  "wf_table tbl \<Longrightarrow> e \<in> set (orgPartition organizationId tbl) \<Longrightarrow> validId e"
  by (simp add: wf_table_def orgPartition_def list_all_iff)

lemma validId_truthy: "validId e \<Longrightarrow> e ''id'' = Some l \<Longrightarrow> truthy l"
  by (auto simp: validId_def split: option.splits val.splits)

lemma validId_Some: "validId e \<Longrightarrow> \<exists>l. e ''id'' = Some l"
  by (auto simp: validId_def split: option.splits)

lemma cursorRemaining_nth:
  assumes "wf_table tbl" and "i < length (orgPartition organizationId tbl)"
    and "(orgPartition organizationId tbl ! i) ''id'' = Some l"
  shows "cursorRemaining organizationId (Some l) tbl = drop (Suc i) (orgPartition organizationId tbl)"
proof -
  have "validId (orgPartition organizationId tbl ! i)"
    using assms(1,2) wf_table_validId nth_mem by blast
  then have "truthy l"
    using assms(3) by (rule validId_truthy)
  moreover have "afterKey [(''id'', l), (''organizationId'', Num organizationId)]
      (orgPartition organizationId tbl) = drop (Suc i) (orgPartition organizationId tbl)"
    using wf_table_partition [OF assms(1)] assms(2,3) orgPartition_organization
    by (intro afterKey_nth) auto
  ultimately show ?thesis by (simp add: cursorRemaining_def)
qed

section \<open>The page contract of paginatedFind\<close>

text \<open>
  C4. Every entity of a page belongs to the requested organization and has no deletedAt;
  a page holds at most itemsPerPage entities; and when lastId is the identifier of the
  entity at position i of the organization's items, the page is made of the live entities
  among the next itemsPerPage items after position i, none of which is at position i or
  before it.
\<close>

theorem paginatedFind_page_contract:
  "(\<forall>e\<in>set (resultData (paginatedFind organizationId q d)).
      e ''organizationId'' = Some (Num organizationId) \<and> e ''deletedAt'' = None) \<and>
   length (resultData (paginatedFind organizationId q d)) \<le> itemsPerPage q \<and>
   (wf_table (table d) \<and> lastId q = Some l \<and>
    i < length (orgPartition organizationId (table d)) \<and>
    (orgPartition organizationId (table d) ! i) ''id'' = Some l \<longrightarrow>
      resultData (paginatedFind organizationId q d) =
        filter live (take (itemsPerPage q) (drop (Suc i) (orgPartition organizationId (table d)))) \<and>
      set (resultData (paginatedFind organizationId q d)) \<inter>
        set (take (Suc i) (orgPartition organizationId (table d))) = {})"
proof (intro conjI impI ballI)
  fix e
  assume "e \<in> set (resultData (paginatedFind organizationId q d))"
  then have e: "e \<in> set (orgPartition organizationId (table d))" "live e"
    using paginatedFind_subset by auto
  from e(1) show "e ''organizationId'' = Some (Num organizationId)"
    by (rule orgPartition_organization)
  from e(2) show "e ''deletedAt'' = None"
    by (simp add: live_def)
next
  have "length (resultData (paginatedFind organizationId q d))
          \<le> length (take (itemsPerPage q) (cursorRemaining organizationId (lastId q) (table d)))"
    unfolding paginatedFind_eval paginationResult.simps by (rule length_filter_le)
  also have "\<dots> \<le> itemsPerPage q"
    by simp
  finally show "length (resultData (paginatedFind organizationId q d)) \<le> itemsPerPage q" .
next
  assume a: "wf_table (table d) \<and> lastId q = Some l \<and>
    i < length (orgPartition organizationId (table d)) \<and>
    (orgPartition organizationId (table d) ! i) ''id'' = Some l"
  then have rem: "cursorRemaining organizationId (lastId q) (table d) =
      drop (Suc i) (orgPartition organizationId (table d))"
    by (simp add: cursorRemaining_nth)
  then show page: "resultData (paginatedFind organizationId q d) =
      filter live (take (itemsPerPage q) (drop (Suc i) (orgPartition organizationId (table d))))"
    by (simp add: paginatedFind_eval)
  have "distinct (orgPartition organizationId (table d))"
    using a wf_table_partition distinct_map by blast
  then have "set (take (Suc i) (orgPartition organizationId (table d))) \<inter>
      set (drop (Suc i) (orgPartition organizationId (table d))) = {}"
    by (rule set_take_disj_set_drop_if_distinct) simp
  moreover have "set (resultData (paginatedFind organizationId q d))
      \<subseteq> set (drop (Suc i) (orgPartition organizationId (table d)))"
    unfolding page using set_take_subset by fastforce
  ultimately show "set (resultData (paginatedFind organizationId q d)) \<inter>
      set (take (Suc i) (orgPartition organizationId (table d))) = {}"
    by blast
qed

theorem paginatedFind_page_contract_witness:
  "resultData (paginatedFind 1 \<lparr>itemsPerPage = 2, lastId = Some (Str ''a'')\<rparr> exampleDal)
     = [exampleEntity ''d'' 1] \<and>
   length (resultData (paginatedFind 1 \<lparr>itemsPerPage = 2, lastId = Some (Str ''a'')\<rparr> exampleDal)) \<le> 2"
  using paginatedFind_page_contract
    [of 1 "\<lparr>itemsPerPage = 2, lastId = Some (Str ''a'')\<rparr>" exampleDal "Str ''a''" 0]
  by (simp add: exampleDal_def exampleTable_def exampleEntity_def wf_table_def validId_def
      orgPartition_def live_def)

section \<open>Facts about save and create\<close>

lemma save_fresh:
  "\<forall>x\<in>set tbl. x ''id'' \<noteq> e ''id'' \<Longrightarrow> save e tbl = tbl @ [e]"
  by (simp add: save_def list_ex_iff)

lemma save_member: "e \<in> set (save e tbl)"
  by (auto simp: save_def list_ex_iff)

lemma save_same_id: "x \<in> set (save e tbl) \<Longrightarrow> x ''id'' = e ''id'' \<Longrightarrow> x = e"
  by (auto simp: save_def list_ex_iff split: if_splits)

lemma create_id: "fst (create organizationId data uuid stamp d) ''id'' = Some (Str uuid)"
  by (simp add: create_def stampNew_def Let_def)

lemma create_table:
  "table (snd (create organizationId data uuid stamp d)) =
     save (fst (create organizationId data uuid stamp d)) (table d)"
  by (simp add: create_def Let_def)

lemma create_organizationId:
  "fst (create organizationId data uuid stamp d) ''organizationId'' = Some (Num organizationId)"
  by (simp add: create_def stampNew_def Let_def)

section \<open>create\<close>

text \<open>
  C5. The entity create returns carries the generated identifier and the organizationId
  argument, whatever the payload holds; it is stored; it is the only stored entity under
  that identifier; and when the generated identifier is not yet in the table, the entity
  is appended to the table, which keeps one entity per identifier.
\<close>

theorem create_stamps_identifier_and_organization:
  "fst (create organizationId data uuid stamp d) ''id'' = Some (Str uuid) \<and>
   fst (create organizationId data uuid stamp d) ''organizationId'' = Some (Num organizationId) \<and>
   fst (create organizationId data uuid stamp d)
     \<in> set (table (snd (create organizationId data uuid stamp d))) \<and>
   (\<forall>x\<in>set (table (snd (create organizationId data uuid stamp d))).
      x ''id'' = Some (Str uuid) \<longrightarrow> x = fst (create organizationId data uuid stamp d)) \<and>
   ((\<forall>x\<in>set (table d). x ''id'' \<noteq> Some (Str uuid)) \<longrightarrow>
      table (snd (create organizationId data uuid stamp d)) =
        table d @ [fst (create organizationId data uuid stamp d)] \<and>
      (wf_table (table d) \<and> uuid \<noteq> [] \<longrightarrow>
         wf_table (table (snd (create organizationId data uuid stamp d)))))"
proof (intro conjI ballI impI)
  show "fst (create organizationId data uuid stamp d) ''id'' = Some (Str uuid)"
    by (rule create_id)
  show "fst (create organizationId data uuid stamp d) ''organizationId'' = Some (Num organizationId)"
    by (rule create_organizationId)
  show "fst (create organizationId data uuid stamp d)
      \<in> set (table (snd (create organizationId data uuid stamp d)))"
    by (simp add: create_table save_member)
next
  fix x
  assume "x \<in> set (table (snd (create organizationId data uuid stamp d)))"
    and "x ''id'' = Some (Str uuid)"
  then show "x = fst (create organizationId data uuid stamp d)"
    by (simp add: create_table save_same_id create_id)
next
  assume fresh: "\<forall>x\<in>set (table d). x ''id'' \<noteq> Some (Str uuid)"
  then show app: "table (snd (create organizationId data uuid stamp d)) =
      table d @ [fst (create organizationId data uuid stamp d)]"
    by (simp add: create_table save_fresh create_id)
  assume "wf_table (table d) \<and> uuid \<noteq> []"
  with fresh show "wf_table (table (snd (create organizationId data uuid stamp d)))"
    unfolding app by (auto simp: wf_table_def create_id validId_def)
qed

theorem create_stamps_identifier_and_organization_witness:
  "fst (create 5 examplePayload ''u'' 3 exampleDal) ''id'' = Some (Str ''u'') \<and>
   fst (create 5 examplePayload ''u'' 3 exampleDal) ''organizationId'' = Some (Num 5) \<and>
   table (snd (create 5 examplePayload ''u'' 3 exampleDal)) =
     exampleTable @ [fst (create 5 examplePayload ''u'' 3 exampleDal)] \<and>
   wf_table (table (snd (create 5 examplePayload ''u'' 3 exampleDal)))"
proof -
  have tbl: "table exampleDal = exampleTable"
    by (simp add: exampleDal_def)
  have fresh: "\<forall>x\<in>set (table exampleDal). x ''id'' \<noteq> Some (Str ''u'')"
    unfolding tbl by (simp add: exampleTable_def exampleEntity_def)
  have wf: "wf_table (table exampleDal) \<and> ''u'' \<noteq> []"
    unfolding tbl by (simp add: exampleTable_def exampleEntity_def wf_table_def validId_def)
  note t = create_stamps_identifier_and_organization [of 5 examplePayload "''u''" 3 exampleDal]
  from t fresh wf show ?thesis
    unfolding tbl by blast
qed

section \<open>update and delete\<close>

lemma findById_Some:
  "findById organizationId ident d = Inr (Some entity) \<longleftrightarrow>
     List.find (\<lambda>e. e ''id'' = Some (Str ident)) (table d) = Some entity \<and>
     entity ''organizationId'' = Some (Num organizationId)"
  by (auto simp: findById_find split: option.splits)

lemma findById_None:
  "findById organizationId ident d = Inr None \<longleftrightarrow>
     List.find (\<lambda>e. e ''id'' = Some (Str ident)) (table d) = None"
  by (auto simp: findById_find split: option.splits)

lemma find_Some_holds: "List.find P xs = Some x \<Longrightarrow> P x"
  by (induction xs) (auto split: if_splits)

lemma findById_Some_id:
  "findById organizationId ident d = Inr (Some entity) \<Longrightarrow> entity ''id'' = Some (Str ident)"
  unfolding findById_Some using find_Some_holds by fast

lemma update_found:
  "findById organizationId ident d = Inr (Some entity) \<Longrightarrow>
   update organizationId ident data stamp d =
     (Inr (setAttrs entity data stamp), d\<lparr>table := storeUpdate entity data stamp (table d)\<rparr>)"
  by (simp add: update_def)

lemma update_missing:
  "findById organizationId ident d = Inr None \<Longrightarrow>
   update organizationId ident data stamp d = (Inl (EntityNotFound (modelName d) ident), d)"
  by (simp add: update_def)

lemma delete_found:
  "findById organizationId ident d = Inr (Some entity) \<Longrightarrow>
   delete organizationId ident now stamp d =
     (Inr True,
      d\<lparr>table := storeUpdate entity (Map.empty(''deletedAt'' \<mapsto> Num now)) stamp (table d)\<rparr>)"
  by (simp add: delete_def update_found)

lemma setAttrs_field:
  "f \<noteq> ''updatedAt'' \<Longrightarrow>
   setAttrs e data stamp f = (case data f of None \<Rightarrow> e f | Some v \<Rightarrow> Some v)"
  by (simp add: setAttrs_def map_add_def)

lemma setAttrs_deletedAt:
  "setAttrs e (Map.empty(''deletedAt'' \<mapsto> Num now)) stamp ''deletedAt'' = Some (Num now)"
  by (simp add: setAttrs_def)

lemma setAttrs_deletedAt_other:
  "f \<noteq> ''updatedAt'' \<Longrightarrow> f \<noteq> ''deletedAt'' \<Longrightarrow>
   setAttrs e (Map.empty(''deletedAt'' \<mapsto> Num now)) stamp f = e f"
  by (simp add: setAttrs_def)

lemma find_storeUpdate:
  assumes "\<And>x. setAttrs x data stamp ''id'' = x ''id''"
  shows "List.find (\<lambda>x. x ''id'' = k) (storeUpdate key data stamp tbl) =
     map_option (\<lambda>x. if x ''id'' = key ''id'' then setAttrs x data stamp else x)
       (List.find (\<lambda>x. x ''id'' = k) tbl)"
  by (induction tbl) (simp_all add: storeUpdate_def assms)

lemma storeUpdate_marks:
  "x \<in> set (storeUpdate key (Map.empty(''deletedAt'' \<mapsto> Num now)) stamp tbl) \<Longrightarrow>
   x ''id'' = key ''id'' \<Longrightarrow> x ''deletedAt'' = Some (Num now)"
  by (auto simp: storeUpdate_def setAttrs_def split: if_splits)

lemma findById_after_delete:
  assumes "findById organizationId ident d = Inr (Some entity)"
  shows "findById organizationId ident (snd (delete organizationId ident now stamp d)) =
     Inr (Some (setAttrs entity (Map.empty(''deletedAt'' \<mapsto> Num now)) stamp))"
proof -
  have found: "List.find (\<lambda>e. e ''id'' = Some (Str ident)) (table d) = Some entity"
    and org: "entity ''organizationId'' = Some (Num organizationId)"
    using assms by (simp_all add: findById_Some)
  have "List.find (\<lambda>e. e ''id'' = Some (Str ident))
      (storeUpdate entity (Map.empty(''deletedAt'' \<mapsto> Num now)) stamp (table d)) =
      Some (setAttrs entity (Map.empty(''deletedAt'' \<mapsto> Num now)) stamp)"
    by (subst find_storeUpdate) (simp_all add: setAttrs_deletedAt_other found)
  moreover have "setAttrs entity (Map.empty(''deletedAt'' \<mapsto> Num now)) stamp ''organizationId'' =
      Some (Num organizationId)"
    by (simp add: setAttrs_deletedAt_other org)
  ultimately show ?thesis
    by (simp add: delete_found [OF assms] findById_Some)
qed

text \<open>
  C6. For an entity that findById resolves, update returns the entity with every supplied
  field set to its new value, every other field as before, and updatedAt set to the
  store's time stamp, which is later than the old one when the clock has advanced; the
  table holds the updated entity in the place of the old one. When findById resolves
  nothing, update fails with the not-found error and the table is unchanged.
\<close>

theorem update_partial_merge:
  "(findById organizationId ident d = Inr (Some entity) \<longrightarrow>
      fst (update organizationId ident data stamp d) = Inr (setAttrs entity data stamp) \<and>
      (\<forall>f. f \<noteq> ''updatedAt'' \<longrightarrow>
         setAttrs entity data stamp f = (case data f of None \<Rightarrow> entity f | Some v \<Rightarrow> Some v)) \<and>
      setAttrs entity data stamp ''updatedAt'' = Some (Num stamp) \<and>
      (\<forall>t. entity ''updatedAt'' = Some (Num t) \<and> t < stamp \<longrightarrow>
         (\<exists>t'. setAttrs entity data stamp ''updatedAt'' = Some (Num t') \<and> t < t')) \<and>
      table (snd (update organizationId ident data stamp d)) =
        map (\<lambda>x. if x ''id'' = Some (Str ident) then setAttrs x data stamp else x) (table d)) \<and>
   (findById organizationId ident d = Inr None \<longrightarrow>
      update organizationId ident data stamp d = (Inl (EntityNotFound (modelName d) ident), d))"
proof (intro conjI impI allI)
  assume found: "findById organizationId ident d = Inr (Some entity)"
  then show "fst (update organizationId ident data stamp d) = Inr (setAttrs entity data stamp)"
    by (simp add: update_found)
  show "setAttrs entity data stamp ''updatedAt'' = Some (Num stamp)"
    by (simp add: setAttrs_def)
  from found have "entity ''id'' = Some (Str ident)"
    by (rule findById_Some_id)
  with found show "table (snd (update organizationId ident data stamp d)) =
      map (\<lambda>x. if x ''id'' = Some (Str ident) then setAttrs x data stamp else x) (table d)"
    by (simp add: update_found storeUpdate_def)
next
  fix f :: string
  assume "f \<noteq> ''updatedAt''"
  then show "setAttrs entity data stamp f = (case data f of None \<Rightarrow> entity f | Some v \<Rightarrow> Some v)"
    by (rule setAttrs_field)
next
  fix t
  assume "entity ''updatedAt'' = Some (Num t) \<and> t < stamp"
  then show "\<exists>t'. setAttrs entity data stamp ''updatedAt'' = Some (Num t') \<and> t < t'"
    by (simp add: setAttrs_def)
next
  assume "findById organizationId ident d = Inr None"
  then show "update organizationId ident data stamp d = (Inl (EntityNotFound (modelName d) ident), d)"
    by (rule update_missing)
qed

lemma delete_table:
  assumes "findById organizationId ident d = Inr (Some entity)"
  shows "delete organizationId ident now stamp d =
     (Inr True,
      d\<lparr>table :=
          map (\<lambda>x. if x ''id'' = Some (Str ident)
                 then setAttrs x (Map.empty(''deletedAt'' \<mapsto> Num now)) stamp else x)
            (table d)\<rparr>)"
  using findById_Some_id [OF assms] by (simp add: delete_found [OF assms] storeUpdate_def)

lemma update_table:
  assumes "findById organizationId ident d = Inr (Some entity)"
  shows "update organizationId ident data stamp d =
     (Inr (setAttrs entity data stamp),
      d\<lparr>table :=
          map (\<lambda>x. if x ''id'' = Some (Str ident) then setAttrs x data stamp else x) (table d)\<rparr>)"
  using findById_Some_id [OF assms] by (simp add: update_found [OF assms] storeUpdate_def)

text \<open>
  C7. For an identifier that findById resolves to an entity of the organization, delete
  returns true and leaves the table with every item as before, except that the item
  under the identifier has deletedAt set to the deletion time and updatedAt to the
  store's stamp. findById then resolves that very entity, marked. A second delete on the
  resulting table returns true as well and marks the same item again. After the first
  delete no entity under that identifier is among the results of find or of any page of
  paginatedFind.
\<close>

theorem delete_idempotent:
  "findById organizationId ident d = Inr (Some entity) \<Longrightarrow>
   delete organizationId ident now stamp d =
     (Inr True,
      d\<lparr>table :=
          map (\<lambda>x. if x ''id'' = Some (Str ident)
                 then setAttrs x (Map.empty(''deletedAt'' \<mapsto> Num now)) stamp else x)
            (table d)\<rparr>) \<and>
   findById organizationId ident (snd (delete organizationId ident now stamp d)) =
     Inr (Some (setAttrs entity (Map.empty(''deletedAt'' \<mapsto> Num now)) stamp)) \<and>
   setAttrs entity (Map.empty(''deletedAt'' \<mapsto> Num now)) stamp ''deletedAt'' = Some (Num now) \<and>
   (\<forall>f. f \<noteq> ''deletedAt'' \<and> f \<noteq> ''updatedAt'' \<longrightarrow>
      setAttrs entity (Map.empty(''deletedAt'' \<mapsto> Num now)) stamp f = entity f) \<and>
   delete organizationId ident now' stamp' (snd (delete organizationId ident now stamp d)) =
     (Inr True,
      (snd (delete organizationId ident now stamp d))
        \<lparr>table :=
           map (\<lambda>x. if x ''id'' = Some (Str ident)
                  then setAttrs x (Map.empty(''deletedAt'' \<mapsto> Num now')) stamp' else x)
             (table (snd (delete organizationId ident now stamp d)))\<rparr>) \<and>
   (\<forall>x\<in>set (find_dal organizationId (snd (delete organizationId ident now stamp d))).
      x ''id'' \<noteq> Some (Str ident)) \<and>
   (\<forall>x\<in>set (resultData (paginatedFind organizationId q
          (snd (delete organizationId ident now stamp d)))).
      x ''id'' \<noteq> Some (Str ident))"
proof (intro conjI ballI allI impI)
  assume found: "findById organizationId ident d = Inr (Some entity)"
  let ?d1 = "snd (delete organizationId ident now stamp d)"
  let ?e1 = "setAttrs entity (Map.empty(''deletedAt'' \<mapsto> Num now)) stamp"
  show "delete organizationId ident now stamp d =
     (Inr True,
      d\<lparr>table :=
          map (\<lambda>x. if x ''id'' = Some (Str ident)
                 then setAttrs x (Map.empty(''deletedAt'' \<mapsto> Num now)) stamp else x)
            (table d)\<rparr>)"
    using found by (rule delete_table)
  show again: "findById organizationId ident ?d1 = Inr (Some ?e1)"
    using found by (rule findById_after_delete)
  show "?e1 ''deletedAt'' = Some (Num now)"
    by (rule setAttrs_deletedAt)
  show "delete organizationId ident now' stamp' ?d1 =
     (Inr True,
      ?d1\<lparr>table :=
           map (\<lambda>x. if x ''id'' = Some (Str ident)
                  then setAttrs x (Map.empty(''deletedAt'' \<mapsto> Num now')) stamp' else x)
             (table ?d1)\<rparr>)"
    using again by (rule delete_table)
  have key: "entity ''id'' = Some (Str ident)"
    using found by (rule findById_Some_id)
  have marked: "x ''deletedAt'' = Some (Num now)"
    if "x \<in> set (table ?d1)" and "x ''id'' = Some (Str ident)" for x
    using that key storeUpdate_marks [of x entity now stamp "table d"]
    by (simp add: delete_found [OF found])
  {
    fix x
    assume "x \<in> set (find_dal organizationId ?d1)"
    then have "x \<in> set (table ?d1)" and "x ''deletedAt'' = Some Null"
      by (simp_all add: find_dal_eval orgPartition_def)
    then show "x ''id'' \<noteq> Some (Str ident)"
      using marked by fastforce
  }
  {
    fix x
    assume "x \<in> set (resultData (paginatedFind organizationId q ?d1))"
    then have "x \<in> set (table ?d1)" and "x ''deletedAt'' = None"
      using paginatedFind_subset [of organizationId q ?d1]
      by (auto simp: orgPartition_def live_def)
    then show "x ''id'' \<noteq> Some (Str ident)"
      using marked by fastforce
  }
next
  fix f :: string
  assume "f \<noteq> ''deletedAt'' \<and> f \<noteq> ''updatedAt''"
  then show "setAttrs entity (Map.empty(''deletedAt'' \<mapsto> Num now)) stamp f = entity f"
    by (simp add: setAttrs_deletedAt_other)
qed

text \<open>
  C10. findById does not look at the soft-delete marker: an entity of the organization
  whose deletedAt is set is returned. update succeeds on it, returns the merged entity
  and stores it in place. delete succeeds on it too: it returns true and leaves the
  table with every item as before, except that the item under the identifier carries
  the new deletion time in place of the old one (and the store's stamp as updatedAt);
  findById then resolves that very entity with the new deletion time.
\<close>

theorem findById_ignores_soft_delete:
  "List.find (\<lambda>e. e ''id'' = Some (Str ident)) (table d) = Some entity \<Longrightarrow>
   entity ''organizationId'' = Some (Num organizationId) \<Longrightarrow>
   entity ''deletedAt'' = Some (Num t) \<Longrightarrow>
   findById organizationId ident d = Inr (Some entity) \<and>
   update organizationId ident data stamp d =
     (Inr (setAttrs entity data stamp),
      d\<lparr>table :=
          map (\<lambda>x. if x ''id'' = Some (Str ident) then setAttrs x data stamp else x) (table d)\<rparr>) \<and>
   delete organizationId ident now stamp d =
     (Inr True,
      d\<lparr>table :=
          map (\<lambda>x. if x ''id'' = Some (Str ident)
                 then setAttrs x (Map.empty(''deletedAt'' \<mapsto> Num now)) stamp else x)
            (table d)\<rparr>) \<and>
   findById organizationId ident (snd (delete organizationId ident now stamp d)) =
     Inr (Some (setAttrs entity (Map.empty(''deletedAt'' \<mapsto> Num now)) stamp)) \<and>
   setAttrs entity (Map.empty(''deletedAt'' \<mapsto> Num now)) stamp ''deletedAt'' = Some (Num now) \<and>
   (\<forall>f. f \<noteq> ''deletedAt'' \<and> f \<noteq> ''updatedAt'' \<longrightarrow>
      setAttrs entity (Map.empty(''deletedAt'' \<mapsto> Num now)) stamp f = entity f)"
proof -
  assume "List.find (\<lambda>e. e ''id'' = Some (Str ident)) (table d) = Some entity"
    and "entity ''organizationId'' = Some (Num organizationId)"
  then have found: "findById organizationId ident d = Inr (Some entity)"
    by (simp add: findById_Some)
  have "\<forall>f. f \<noteq> ''deletedAt'' \<and> f \<noteq> ''updatedAt'' \<longrightarrow>
      setAttrs entity (Map.empty(''deletedAt'' \<mapsto> Num now)) stamp f = entity f"
    by (simp add: setAttrs_deletedAt_other)
  with found update_table [OF found] delete_table [OF found] findById_after_delete [OF found]
    setAttrs_deletedAt
  show ?thesis
    by blast
qed

theorem update_partial_merge_witness:
  "fst (update 1 ''a'' (Map.empty(''name'' \<mapsto> Str ''X'')) 9 exampleDal) =
     Inr (setAttrs (exampleEntity ''a'' 1) (Map.empty(''name'' \<mapsto> Str ''X'')) 9) \<and>
   setAttrs (exampleEntity ''a'' 1) (Map.empty(''name'' \<mapsto> Str ''X'')) 9 ''name'' = Some (Str ''X'') \<and>
   setAttrs (exampleEntity ''a'' 1) (Map.empty(''name'' \<mapsto> Str ''X'')) 9 ''organizationId'' = Some (Num 1) \<and>
   setAttrs (exampleEntity ''a'' 1) (Map.empty(''name'' \<mapsto> Str ''X'')) 9 ''updatedAt'' = Some (Num 9) \<and>
   update 1 ''zz'' (Map.empty(''name'' \<mapsto> Str ''X'')) 9 exampleDal =
     (Inl (EntityNotFound ''categories'' ''zz''), exampleDal)"
proof -
  let ?patch = "Map.empty(''name'' \<mapsto> Str ''X'')"
  have found: "findById 1 ''a'' exampleDal = Inr (Some (exampleEntity ''a'' 1))"
    by (simp add: findById_find exampleDal_def exampleTable_def exampleEntity_def)
  have missing: "findById 1 ''zz'' exampleDal = Inr None"
    by (simp add: findById_find exampleDal_def exampleTable_def exampleEntity_def)
  note t = update_partial_merge [of 1 "''a''" exampleDal "exampleEntity ''a'' 1" ?patch 9]
  from t found have ret: "fst (update 1 ''a'' ?patch 9 exampleDal) =
      Inr (setAttrs (exampleEntity ''a'' 1) ?patch 9)"
    by blast
  from t found have fields: "\<forall>f. f \<noteq> ''updatedAt'' \<longrightarrow>
      setAttrs (exampleEntity ''a'' 1) ?patch 9 f =
        (case ?patch f of None \<Rightarrow> exampleEntity ''a'' 1 f | Some v \<Rightarrow> Some v)"
    by blast
  from t found have upd: "setAttrs (exampleEntity ''a'' 1) ?patch 9 ''updatedAt'' = Some (Num 9)"
    by blast
  have name: "setAttrs (exampleEntity ''a'' 1) ?patch 9 ''name'' = Some (Str ''X'')"
    using fields [rule_format, of "''name''"] by simp
  have org: "setAttrs (exampleEntity ''a'' 1) ?patch 9 ''organizationId'' = Some (Num 1)"
    using fields [rule_format, of "''organizationId''"] by (simp add: exampleEntity_def)
  have nf: "update 1 ''zz'' ?patch 9 exampleDal = (Inl (EntityNotFound ''categories'' ''zz''), exampleDal)"
    using update_partial_merge [of 1 "''zz''" exampleDal "exampleEntity ''a'' 1" ?patch 9] missing
    by (simp add: exampleDal_def)
  from ret name org upd nf show ?thesis
    by blast
qed

theorem delete_idempotent_witness:
  "delete 1 ''a'' 10 11 exampleDal =
     (Inr True,
      exampleDal\<lparr>table :=
        [setAttrs (exampleEntity ''a'' 1) (Map.empty(''deletedAt'' \<mapsto> Num 10)) 11,
         exampleEntity ''b'' 2,
         (exampleEntity ''c'' 1)(''deletedAt'' \<mapsto> Num 7), exampleEntity ''d'' 1]\<rparr>) \<and>
   findById 1 ''a'' (snd (delete 1 ''a'' 10 11 exampleDal)) =
     Inr (Some (setAttrs (exampleEntity ''a'' 1) (Map.empty(''deletedAt'' \<mapsto> Num 10)) 11)) \<and>
   fst (delete 1 ''a'' 20 21 (snd (delete 1 ''a'' 10 11 exampleDal))) = Inr True"
proof -
  have found: "findById 1 ''a'' exampleDal = Inr (Some (exampleEntity ''a'' 1))"
    by (simp add: findById_find exampleDal_def exampleTable_def exampleEntity_def)
  have tbl: "map (\<lambda>x. if x ''id'' = Some (Str ''a'')
                 then setAttrs x (Map.empty(''deletedAt'' \<mapsto> Num 10)) 11 else x)
            (table exampleDal) =
      [setAttrs (exampleEntity ''a'' 1) (Map.empty(''deletedAt'' \<mapsto> Num 10)) 11,
       exampleEntity ''b'' 2,
       (exampleEntity ''c'' 1)(''deletedAt'' \<mapsto> Num 7), exampleEntity ''d'' 1]"
    by (simp add: exampleDal_def exampleTable_def exampleEntity_def)
  note t = delete_idempotent [OF found, of 10 11 20 21]
  have first: "delete 1 ''a'' 10 11 exampleDal =
     (Inr True,
      exampleDal\<lparr>table :=
        [setAttrs (exampleEntity ''a'' 1) (Map.empty(''deletedAt'' \<mapsto> Num 10)) 11,
         exampleEntity ''b'' 2,
         (exampleEntity ''c'' 1)(''deletedAt'' \<mapsto> Num 7), exampleEntity ''d'' 1]\<rparr>)"
    using t [THEN conjunct1] unfolding tbl .
  have again: "findById 1 ''a'' (snd (delete 1 ''a'' 10 11 exampleDal)) =
     Inr (Some (setAttrs (exampleEntity ''a'' 1) (Map.empty(''deletedAt'' \<mapsto> Num 10)) 11))"
    using t [THEN conjunct2, THEN conjunct1] .
  have second: "fst (delete 1 ''a'' 20 21 (snd (delete 1 ''a'' 10 11 exampleDal))) = Inr True"
    by (simp only: t [THEN conjunct2, THEN conjunct2, THEN conjunct2, THEN conjunct2, THEN conjunct1]
        fst_conv)
  from first again second show ?thesis
    by (intro conjI)
qed

theorem findById_ignores_soft_delete_witness:
  "findById 1 ''c'' exampleDal = Inr (Some ((exampleEntity ''c'' 1)(''deletedAt'' \<mapsto> Num 7))) \<and>
   delete 1 ''c'' 10 11 exampleDal =
     (Inr True,
      exampleDal\<lparr>table :=
        [exampleEntity ''a'' 1, exampleEntity ''b'' 2,
         setAttrs ((exampleEntity ''c'' 1)(''deletedAt'' \<mapsto> Num 7))
           (Map.empty(''deletedAt'' \<mapsto> Num 10)) 11,
         exampleEntity ''d'' 1]\<rparr>) \<and>
   setAttrs ((exampleEntity ''c'' 1)(''deletedAt'' \<mapsto> Num 7))
     (Map.empty(''deletedAt'' \<mapsto> Num 10)) 11 ''deletedAt'' = Some (Num 10)"
proof -
  have stored: "List.find (\<lambda>e. e ''id'' = Some (Str ''c'')) (table exampleDal) =
      Some ((exampleEntity ''c'' 1)(''deletedAt'' \<mapsto> Num 7))"
    by (simp add: exampleDal_def exampleTable_def exampleEntity_def)
  have org: "((exampleEntity ''c'' 1)(''deletedAt'' \<mapsto> Num 7)) ''organizationId'' = Some (Num 1)"
    by (simp add: exampleEntity_def)
  have del: "((exampleEntity ''c'' 1)(''deletedAt'' \<mapsto> Num 7)) ''deletedAt'' = Some (Num 7)"
    by simp
  have tbl: "map (\<lambda>x. if x ''id'' = Some (Str ''c'')
                 then setAttrs x (Map.empty(''deletedAt'' \<mapsto> Num 10)) 11 else x)
            (table exampleDal) =
      [exampleEntity ''a'' 1, exampleEntity ''b'' 2,
       setAttrs ((exampleEntity ''c'' 1)(''deletedAt'' \<mapsto> Num 7))
         (Map.empty(''deletedAt'' \<mapsto> Num 10)) 11,
       exampleEntity ''d'' 1]"
    by (simp add: exampleDal_def exampleTable_def exampleEntity_def)
  show ?thesis
    using findById_ignores_soft_delete
      [OF stored org del, where data = Map.empty and now = 10 and stamp = 11]
    unfolding tbl by blast
qed

section \<open>The table invariant is kept\<close>

lemma wf_table_empty: "wf_table []"
  by (simp add: wf_table_def)

lemma storeUpdate_ids:
  "data ''id'' = None \<Longrightarrow>
   map (\<lambda>e. e ''id'') (storeUpdate key data stamp tbl) = map (\<lambda>e. e ''id'') tbl"
  by (simp add: storeUpdate_def setAttrs_def map_add_def)

lemma wf_table_storeUpdate:
  assumes "data ''id'' = None" and "wf_table tbl"
  shows "wf_table (storeUpdate key data stamp tbl)"
proof -
  have "validId (setAttrs x data stamp) = validId x" for x
    using assms(1) by (simp add: validId_def setAttrs_def map_add_def)
  then have "list_all validId (storeUpdate key data stamp tbl) = list_all validId tbl"
    by (induction tbl) (simp_all add: storeUpdate_def)
  with assms show ?thesis
    by (simp add: wf_table_def storeUpdate_ids)
qed

lemma wf_table_update:
  "data ''id'' = None \<Longrightarrow> wf_table (table d) \<Longrightarrow>
   wf_table (table (snd (update organizationId ident data stamp d)))"
  by (simp add: update_def wf_table_storeUpdate split: sum.splits option.splits)

lemma wf_table_delete:
  "wf_table (table d) \<Longrightarrow> wf_table (table (snd (delete organizationId ident now stamp d)))"
proof -
  assume wf: "wf_table (table d)"
  have "snd (delete organizationId ident now stamp d) =
      snd (update organizationId ident (Map.empty(''deletedAt'' \<mapsto> Num now)) stamp d)"
    by (simp add: delete_def split: prod.splits sum.splits)
  with wf show ?thesis
    by (simp add: wf_table_update)
qed

section \<open>Isolation of organizations\<close>








section \<open>Pagination to the end\<close>

lemma last_take_drop:
  assumes "0 < n" and "n \<le> length xs - k"
  shows "last (take n (drop k xs)) = xs ! (k + n - 1)"
proof -
  have "take n (drop k xs) \<noteq> []"
    using assms by auto
  then have "last (take n (drop k xs)) = take n (drop k xs) ! (length (take n (drop k xs)) - 1)"
    by (rule last_conv_nth)
  also have "\<dots> = drop k xs ! (n - 1)"
    using assms by (simp add: min_absorb2)
  also have "\<dots> = xs ! (k + (n - 1))"
    using assms by simp
  finally show ?thesis
    using assms by simp
qed

lemma paginateAll_from:
  assumes wf: "wf_table (table d)" and pos: "0 < pageSize"
  shows "cursorRemaining organizationId cursor (table d) =
           drop k (orgPartition organizationId (table d)) \<Longrightarrow>
         length (orgPartition organizationId (table d)) - k < fuel \<Longrightarrow>
         paginateAll fuel organizationId pageSize cursor d =
           Some (filter live (drop k (orgPartition organizationId (table d))))"
proof (induction fuel arbitrary: k cursor)
  case 0
  then show ?case by simp
next
  case (Suc fuel)
  let ?p = "orgPartition organizationId (table d)"
  let ?page = "paginatedFind organizationId \<lparr>itemsPerPage = pageSize, lastId = cursor\<rparr> d"
  have data: "resultData ?page = filter live (take pageSize (drop k ?p))"
    by (simp add: paginatedFind_eval Suc.prems(1))
  show ?case
  proof (cases "pageSize \<le> length ?p - k")
    case False
    then have "resultLastId ?page = None" and "take pageSize (drop k ?p) = drop k ?p"
      by (simp_all add: paginatedFind_eval Suc.prems(1))
    then show ?thesis
      by (simp add: data)
  next
    case True
    let ?i = "k + pageSize - 1"
    have i: "?i < length ?p"
      using True pos by simp
    then have "validId (?p ! ?i)"
      using wf wf_table_validId nth_mem by blast
    then obtain l where l: "(?p ! ?i) ''id'' = Some l"
      using validId_Some by blast
    have "last (take pageSize (drop k ?p)) = ?p ! ?i"
      using pos True by (rule last_take_drop)
    then have next_cursor: "resultLastId ?page = Some l"
      using True pos l by (simp add: paginatedFind_eval Suc.prems(1))
    have "cursorRemaining organizationId (Some l) (table d) = drop (Suc ?i) ?p"
      using wf i l by (rule cursorRemaining_nth)
    then have rem: "cursorRemaining organizationId (Some l) (table d) = drop (k + pageSize) ?p"
      using pos by simp
    have "length ?p - (k + pageSize) < fuel"
      using Suc.prems(2) pos True by simp
    with rem have "paginateAll fuel organizationId pageSize (Some l) d =
        Some (filter live (drop (k + pageSize) ?p))"
      by (rule Suc.IH)
    moreover have "take pageSize (drop k ?p) @ drop (k + pageSize) ?p = drop k ?p"
      by (metis add.commute append_take_drop_id drop_drop)
    then have "filter live (take pageSize (drop k ?p)) @ filter live (drop (k + pageSize) ?p) =
        filter live (drop k ?p)"
      by (metis filter_append)
    ultimately show ?thesis
      by (simp add: next_cursor data)
  qed
qed

text \<open>
  C3 (as the code has it). With a positive page size, on a table that holds one entity
  per identifier, the loop that starts with no cursor and follows the returned cursor
  until none is returned ends within as many calls as the table has items plus one, and
  the pages put together are exactly the live entities of the organization, each exactly
  once, in the order in which the organization index scans them (the order of the
  table). paginatedFind asks for no sort, so that order need not be creation order.
\<close>

theorem pagination_complete:
  "0 < pageSize \<Longrightarrow> wf_table (table d) \<Longrightarrow> length (table d) < fuel \<Longrightarrow>
   paginateAll fuel organizationId pageSize None d =
     Some (filter (\<lambda>e. e ''organizationId'' = Some (Num organizationId) \<and> e ''deletedAt'' = None)
             (table d)) \<and>
   distinct (filter (\<lambda>e. e ''organizationId'' = Some (Num organizationId) \<and> e ''deletedAt'' = None)
             (table d))"
proof -
  assume pos: "0 < pageSize" and wf: "wf_table (table d)" and fuel: "length (table d) < fuel"
  let ?p = "orgPartition organizationId (table d)"
  have "length ?p \<le> length (table d)"
    by (simp add: orgPartition_def)
  with fuel have "length ?p - 0 < fuel"
    by simp
  moreover have "cursorRemaining organizationId None (table d) = drop 0 ?p"
    by (simp add: cursorRemaining_def)
  ultimately have "paginateAll fuel organizationId pageSize None d = Some (filter live (drop 0 ?p))"
    using paginateAll_from [OF wf pos] by blast
  moreover have "filter live ?p =
      filter (\<lambda>e. e ''organizationId'' = Some (Num organizationId) \<and> e ''deletedAt'' = None) (table d)"
    by (simp add: orgPartition_def live_fun conj_commute)
  moreover have "distinct (filter live ?p)"
    using wf_table_partition [OF wf] distinct_map distinct_filter by blast
  ultimately show ?thesis
    by simp
qed

text \<open>
  C3 (as stated) fails on the order: the index scans the entity created at time 4 before
  the entity created at time 1, and the loop returns them in that order.
\<close>

theorem pagination_complete_counterexample:
  "wf_table (table unorderedDal) \<and>
   paginateAll 3 1 2 None unorderedDal =
     Some [(exampleEntity ''d'' 1)(''createdAt'' \<mapsto> Num 4),
           (exampleEntity ''a'' 1)(''createdAt'' \<mapsto> Num 1)] \<and>
   ((exampleEntity ''d'' 1)(''createdAt'' \<mapsto> Num 4)) ''createdAt'' = Some (Num 4) \<and>
   ((exampleEntity ''a'' 1)(''createdAt'' \<mapsto> Num 1)) ''createdAt'' = Some (Num 1)"
proof -
  have wf: "wf_table (table unorderedDal)"
    by (simp add: unorderedDal_def exampleEntity_def wf_table_def validId_def)
  have pos: "0 < (2::nat)" by simp
  have start: "cursorRemaining 1 None (table unorderedDal) =
      drop 0 (orgPartition 1 (table unorderedDal))"
    by (simp add: cursorRemaining_def)
  have fuel: "length (orgPartition 1 (table unorderedDal)) - 0 < 3"
    by (simp add: orgPartition_def unorderedDal_def)
  have "paginateAll 3 1 2 None unorderedDal =
      Some (filter live (drop 0 (orgPartition 1 (table unorderedDal))))"
    using wf pos start fuel by (rule paginateAll_from)
  then have "paginateAll 3 1 2 None unorderedDal =
     Some [(exampleEntity ''d'' 1)(''createdAt'' \<mapsto> Num 4),
           (exampleEntity ''a'' 1)(''createdAt'' \<mapsto> Num 1)]"
    by (simp add: orgPartition_def live_def unorderedDal_def exampleEntity_def)
  with wf show ?thesis
    by simp
qed

theorem pagination_complete_witness:
  "paginateAll 5 1 2 None exampleDal = Some [exampleEntity ''a'' 1, exampleEntity ''d'' 1]"
proof -
  have pos: "0 < (2::nat)" by simp
  have wf: "wf_table (table exampleDal)"
    by (simp add: exampleDal_def exampleTable_def exampleEntity_def wf_table_def validId_def)
  have fuel: "length (table exampleDal) < 5"
    by (simp add: exampleDal_def exampleTable_def)
  show ?thesis
    using pagination_complete [OF pos wf fuel, of 1]
    by (simp add: exampleDal_def exampleTable_def exampleEntity_def)
qed

section \<open>The conditional resolver\<close>

lemma promise_lookups:
  "fst (useConditionalPromise (findRef kind d organizationId ref) (supplied ref)) = refLookups kind ref"
  by (simp add: useConditionalPromise_def findRef_def supplied_def refLookups_def split: option.splits)

lemma promise_outcome:
  "snd (useConditionalPromise (findRef kind d organizationId ref) (supplied ref)) =
     (case ref of
        None \<Rightarrow> Inr None
      | Some ident \<Rightarrow> (if ident = [] then Inr None else findById organizationId ident d))"
  by (simp add: useConditionalPromise_def findRef_def supplied_def split: option.splits)

lemma check_promise:
  "checkResolved notFound
     (slotValue (snd (useConditionalPromise (findRef kind d organizationId ref) (supplied ref)))) ref =
   refFailure notFound d organizationId ref"
  by (simp add: promise_outcome checkResolved_def refFailure_def slotValue_def
      split: option.splits sum.splits)

lemma promise_fulfilled:
  "\<not> refRejects d organizationId ref \<Longrightarrow>
   \<exists>v. snd (useConditionalPromise (findRef kind d organizationId ref) (supplied ref)) = Inr v"
  by (auto simp: promise_outcome refRejects_def split: option.splits sum.splits if_splits)

lemma promiseAllSettled_lookups: "fst (promiseAllSettled pol ps) = concat (map fst ps)"
  by (simp add: promiseAllSettled_def)

lemma promiseAllSettled_undefined:
  "snd (promiseAllSettled RejectedAsUndefined ps) = Inr (map (slotValue \<circ> snd) ps)"
  by (simp add: promiseAllSettled_def)

lemma promiseAllSettled_fulfilled:
  "snd p1 = Inr v1 \<Longrightarrow> snd p2 = Inr v2 \<Longrightarrow> snd p3 = Inr v3 \<Longrightarrow>
   snd (promiseAllSettled pol [p1, p2, p3]) = Inr (map (slotValue \<circ> snd) [p1, p2, p3])"
  by (cases pol) (simp_all add: promiseAllSettled_def)

lemma createAuditLog_lookups:
  "fst (createAuditLog pol m organizationId dto uuid stamp svc) = requested dto"
proof -
  have "fst (createAuditLog pol m organizationId dto uuid stamp svc) =
      fst (promiseAllSettled pol (refPromises svc organizationId dto))"
    unfolding createAuditLog_def refPromises_def
    by (simp split: prod.splits sum.splits option.splits)
  then show ?thesis
    by (simp add: promiseAllSettled_lookups promise_lookups requested_def refPromises_def)
qed

lemma createAuditLog_rejected:
  assumes "snd (promiseAllSettled pol (refPromises svc organizationId dto)) = Inl err"
  shows "snd (createAuditLog pol m organizationId dto uuid stamp svc) = (Inl err, svc)"
proof -
  obtain ls where "promiseAllSettled pol (refPromises svc organizationId dto) = (ls, Inl err)"
    using assms by (metis prod.collapse)
  then show ?thesis
    unfolding createAuditLog_def refPromises_def by simp
qed

lemma createAuditLog_settled:
  assumes "snd (promiseAllSettled pol (refPromises svc organizationId dto)) =
      Inr (map (slotValue \<circ> snd) (refPromises svc organizationId dto))"
  shows "snd (createAuditLog pol m organizationId dto uuid stamp svc) =
     (case firstFailure svc organizationId dto of
        Some err \<Rightarrow> (Inl err, svc)
      | None \<Rightarrow>
          (Inr (toDto m (fst (create organizationId (toModel m dto) uuid stamp (auditLogDal svc)))),
           svc\<lparr>auditLogDal := snd (create organizationId (toModel m dto) uuid stamp (auditLogDal svc))\<rparr>))"
proof -
  obtain ls where "promiseAllSettled pol (refPromises svc organizationId dto) =
      (ls, Inr (map (slotValue \<circ> snd) (refPromises svc organizationId dto)))"
    using assms by (metis prod.collapse)
  then show ?thesis
    unfolding createAuditLog_def firstFailure_def refPromises_def
    by (simp add: slot_def check_promise split: option.splits prod.splits)
qed

lemma settled_when_no_rejection:
  assumes "pol = RejectedAsUndefined \<or> \<not> anyRejects svc organizationId dto"
  shows "snd (promiseAllSettled pol (refPromises svc organizationId dto)) =
      Inr (map (slotValue \<circ> snd) (refPromises svc organizationId dto))"
proof (cases "pol = RejectedAsUndefined")
  case True
  then show ?thesis
    by (simp add: promiseAllSettled_undefined)
next
  case False
  with assms have no: "\<not> refRejects (categoryDal svc) organizationId (categoryId dto)"
    "\<not> refRejects (subCategoryDal svc) organizationId (subCategoryId dto)"
    "\<not> refRejects (actionTypeDal svc) organizationId (actionTypeId dto)"
    by (simp_all add: anyRejects_def)
  show ?thesis
    unfolding refPromises_def
    using promise_fulfilled [OF no(1), of CategoryRef] promise_fulfilled [OF no(2), of SubCategoryRef]
      promise_fulfilled [OF no(3), of ActionTypeRef]
    by (metis promiseAllSettled_fulfilled)
qed


lemma findById_Inl:
  "findById organizationId ident d = Inl err \<Longrightarrow>
   err = DocumentNotOfOrganization (modelName d) ident organizationId"
  by (auto simp: findById_find split: option.splits if_splits)









section \<open>createAuditLog and its foreign keys\<close>

lemma refFailure_absent [simp]: "refFailure notFound d organizationId None = None"
  by (simp add: refFailure_def)

lemma refRejects_absent [simp]: "\<not> refRejects d organizationId None"
  by (simp add: refRejects_def)

lemma category_rejected:
  assumes "findById organizationId c (categoryDal svc) = Inl err" and "c \<noteq> []"
  shows "snd (promiseAllSettled RethrowFirstRejection
           (refPromises svc organizationId (dto\<lparr>categoryId := Some c\<rparr>))) = Inl err"
  using assms
  by (simp add: promiseAllSettled_def refPromises_def useConditionalPromise_def findRef_def
      supplied_def)

text \<open>
  C2 (as the code has it). When categoryId is supplied and not empty, the other two keys
  are absent, and findById resolves no entity of the organization for it, createAuditLog
  issues the one lookup, persists nothing and fails with an error that names the
  category and the identifier: the category-not-found error, or the
  document-not-of-organization error of the category model when findById raised it and
  the rejection is rethrown; it is the category-not-found error whenever no entity is
  stored under the identifier. When all three keys are absent, createAuditLog issues no
  lookup and returns the projection of the record that create persisted. An empty-string
  categoryId is treated like an absent one: with the other two keys absent, no lookup is
  issued and the record is persisted.
\<close>

theorem createAuditLog_conditional_resolution:
  "(categoryId dto = Some c \<and> c \<noteq> [] \<and> subCategoryId dto = None \<and> actionTypeId dto = None \<and>
    (\<forall>entity. findById organizationId c (categoryDal svc) \<noteq> Inr (Some entity)) \<longrightarrow>
      fst (createAuditLog pol m organizationId dto uuid stamp svc) = [(CategoryRef, c)] \<and>
      snd (snd (createAuditLog pol m organizationId dto uuid stamp svc)) = svc \<and>
      (fst (snd (createAuditLog pol m organizationId dto uuid stamp svc)) = Inl (CategoryNotFound c) \<or>
       fst (snd (createAuditLog pol m organizationId dto uuid stamp svc)) =
         Inl (DocumentNotOfOrganization (modelName (categoryDal svc)) c organizationId)) \<and>
      (findById organizationId c (categoryDal svc) = Inr None \<longrightarrow>
         fst (snd (createAuditLog pol m organizationId dto uuid stamp svc)) = Inl (CategoryNotFound c))) \<and>
   (categoryId dto = None \<and> subCategoryId dto = None \<and> actionTypeId dto = None \<longrightarrow>
      createAuditLog pol m organizationId dto uuid stamp svc =
        ([],
         Inr (toDto m (fst (create organizationId (toModel m dto) uuid stamp (auditLogDal svc)))),
         svc\<lparr>auditLogDal := snd (create organizationId (toModel m dto) uuid stamp (auditLogDal svc))\<rparr>)) \<and>
   (categoryId dto = Some [] \<and> subCategoryId dto = None \<and> actionTypeId dto = None \<longrightarrow>
      createAuditLog pol m organizationId dto uuid stamp svc =
        ([],
         Inr (toDto m (fst (create organizationId (toModel m dto) uuid stamp (auditLogDal svc)))),
         svc\<lparr>auditLogDal := snd (create organizationId (toModel m dto) uuid stamp (auditLogDal svc))\<rparr>))"
proof (intro conjI impI)
  assume empty: "categoryId dto = Some [] \<and> subCategoryId dto = None \<and> actionTypeId dto = None"
  then have "firstFailure svc organizationId dto = None" and "\<not> anyRejects svc organizationId dto"
    by (simp_all add: firstFailure_def anyRejects_def refFailure_def refRejects_def)
  then have "snd (createAuditLog pol m organizationId dto uuid stamp svc) =
      (Inr (toDto m (fst (create organizationId (toModel m dto) uuid stamp (auditLogDal svc)))),
       svc\<lparr>auditLogDal := snd (create organizationId (toModel m dto) uuid stamp (auditLogDal svc))\<rparr>)"
    by (simp add: createAuditLog_settled settled_when_no_rejection)
  moreover from empty have "fst (createAuditLog pol m organizationId dto uuid stamp svc) = []"
    by (simp add: createAuditLog_lookups requested_def refLookups_def)
  ultimately show "createAuditLog pol m organizationId dto uuid stamp svc =
      ([],
       Inr (toDto m (fst (create organizationId (toModel m dto) uuid stamp (auditLogDal svc)))),
       svc\<lparr>auditLogDal := snd (create organizationId (toModel m dto) uuid stamp (auditLogDal svc))\<rparr>)"
    by (metis prod.collapse)
next
  assume absent: "categoryId dto = None \<and> subCategoryId dto = None \<and> actionTypeId dto = None"
  then have "firstFailure svc organizationId dto = None" and "\<not> anyRejects svc organizationId dto"
    by (simp_all add: firstFailure_def anyRejects_def)
  then have "snd (createAuditLog pol m organizationId dto uuid stamp svc) =
      (Inr (toDto m (fst (create organizationId (toModel m dto) uuid stamp (auditLogDal svc)))),
       svc\<lparr>auditLogDal := snd (create organizationId (toModel m dto) uuid stamp (auditLogDal svc))\<rparr>)"
    by (simp add: createAuditLog_settled settled_when_no_rejection)
  moreover from absent have "fst (createAuditLog pol m organizationId dto uuid stamp svc) = []"
    by (simp add: createAuditLog_lookups requested_def refLookups_def)
  ultimately show "createAuditLog pol m organizationId dto uuid stamp svc =
      ([],
       Inr (toDto m (fst (create organizationId (toModel m dto) uuid stamp (auditLogDal svc)))),
       svc\<lparr>auditLogDal := snd (create organizationId (toModel m dto) uuid stamp (auditLogDal svc))\<rparr>)"
    by (metis prod.collapse)
next
  assume a: "categoryId dto = Some c \<and> c \<noteq> [] \<and> subCategoryId dto = None \<and> actionTypeId dto = None \<and>
    (\<forall>entity. findById organizationId c (categoryDal svc) \<noteq> Inr (Some entity))"
  then have dto: "dto = dto\<lparr>categoryId := Some c\<rparr>"
    by simp
  from a have failure: "firstFailure svc organizationId dto = Some (CategoryNotFound c)"
    by (auto simp: firstFailure_def refFailure_def split: sum.splits option.splits)
  from a have others: "anyRejects svc organizationId dto \<longleftrightarrow>
      (\<exists>err. findById organizationId c (categoryDal svc) = Inl err)"
    by (auto simp: anyRejects_def refRejects_def split: sum.splits)
  show "fst (createAuditLog pol m organizationId dto uuid stamp svc) = [(CategoryRef, c)]"
    using a by (simp add: createAuditLog_lookups requested_def refLookups_def)
  have quiet: "snd (createAuditLog pol m organizationId dto uuid stamp svc) = (Inl (CategoryNotFound c), svc)"
    if "pol = RejectedAsUndefined \<or> \<not> anyRejects svc organizationId dto"
    using that failure by (simp add: createAuditLog_settled settled_when_no_rejection)
  have loud: "snd (createAuditLog pol m organizationId dto uuid stamp svc) =
      (Inl (DocumentNotOfOrganization (modelName (categoryDal svc)) c organizationId), svc)"
    if "pol = RethrowFirstRejection" and "anyRejects svc organizationId dto"
  proof -
    from that(2) others obtain err where err: "findById organizationId c (categoryDal svc) = Inl err"
      by blast
    then have "snd (promiseAllSettled RethrowFirstRejection (refPromises svc organizationId dto)) = Inl err"
      using a category_rejected [of organizationId c svc err dto] dto by simp
    then have "snd (createAuditLog pol m organizationId dto uuid stamp svc) = (Inl err, svc)"
      using that(1) by (simp add: createAuditLog_rejected)
    with err show ?thesis
      using findById_Inl by blast
  qed
  have cases: "(pol = RejectedAsUndefined \<or> \<not> anyRejects svc organizationId dto) \<or>
      (pol = RethrowFirstRejection \<and> anyRejects svc organizationId dto)"
    by (cases pol) auto
  from cases quiet loud show "snd (snd (createAuditLog pol m organizationId dto uuid stamp svc)) = svc"
    by (metis snd_conv)
  from cases quiet loud show
    "fst (snd (createAuditLog pol m organizationId dto uuid stamp svc)) = Inl (CategoryNotFound c) \<or>
     fst (snd (createAuditLog pol m organizationId dto uuid stamp svc)) =
       Inl (DocumentNotOfOrganization (modelName (categoryDal svc)) c organizationId)"
    by (metis fst_conv)
  assume "findById organizationId c (categoryDal svc) = Inr None"
  with others have "\<not> anyRejects svc organizationId dto"
    by simp
  with quiet show "fst (snd (createAuditLog pol m organizationId dto uuid stamp svc)) = Inl (CategoryNotFound c)"
    by simp
qed

lemma empty_categoryId_is_skipped:
  "createAuditLog pol exampleMapper 1
     \<lparr>categoryId = Some [], subCategoryId = None, actionTypeId = None, payload = examplePayload\<rparr>
     ''u'' 3 exampleService =
   ([], Inr (fst (create 1 examplePayload ''u'' 3 (auditLogDal exampleService))),
    exampleService\<lparr>auditLogDal := snd (create 1 examplePayload ''u'' 3 (auditLogDal exampleService))\<rparr>)"
proof -
  let ?dto = "\<lparr>categoryId = Some [], subCategoryId = None, actionTypeId = None,
      payload = examplePayload\<rparr>"
  have "firstFailure exampleService 1 ?dto = None" and "\<not> anyRejects exampleService 1 ?dto"
    by (simp_all add: firstFailure_def refFailure_def anyRejects_def refRejects_def)
  then have "snd (createAuditLog pol exampleMapper 1 ?dto ''u'' 3 exampleService) =
      (Inr (fst (create 1 examplePayload ''u'' 3 (auditLogDal exampleService))),
       exampleService\<lparr>auditLogDal := snd (create 1 examplePayload ''u'' 3 (auditLogDal exampleService))\<rparr>)"
    by (simp add: createAuditLog_settled settled_when_no_rejection exampleMapper_def)
  moreover have "fst (createAuditLog pol exampleMapper 1 ?dto ''u'' 3 exampleService) = []"
    by (simp add: createAuditLog_lookups requested_def refLookups_def)
  ultimately show ?thesis
    by (metis prod.collapse)
qed

text \<open>
  C2 (as stated) fails for the empty string: it is a supplied categoryId under which no
  category is stored, yet createAuditLog treats it as absent, issues no lookup and
  persists the record, whatever is made of rejected promises.
\<close>

theorem createAuditLog_conditional_resolution_counterexample:
  "findById 1 [] (categoryDal exampleService) = Inr None \<and>
   createAuditLog RejectedAsUndefined exampleMapper 1
     \<lparr>categoryId = Some [], subCategoryId = None, actionTypeId = None, payload = examplePayload\<rparr>
     ''u'' 3 exampleService =
   ([], Inr (fst (create 1 examplePayload ''u'' 3 (auditLogDal exampleService))),
    exampleService\<lparr>auditLogDal := snd (create 1 examplePayload ''u'' 3 (auditLogDal exampleService))\<rparr>) \<and>
   createAuditLog RethrowFirstRejection exampleMapper 1
     \<lparr>categoryId = Some [], subCategoryId = None, actionTypeId = None, payload = examplePayload\<rparr>
     ''u'' 3 exampleService =
   ([], Inr (fst (create 1 examplePayload ''u'' 3 (auditLogDal exampleService))),
    exampleService\<lparr>auditLogDal := snd (create 1 examplePayload ''u'' 3 (auditLogDal exampleService))\<rparr>)"
proof -
  have "findById 1 [] (categoryDal exampleService) = Inr None"
    by (simp add: findById_find exampleService_def exampleDal_def exampleTable_def exampleEntity_def)
  then show ?thesis
    using empty_categoryId_is_skipped [of RejectedAsUndefined]
      empty_categoryId_is_skipped [of RethrowFirstRejection]
    by blast
qed

theorem createAuditLog_conditional_resolution_witness:
  "createAuditLog RejectedAsUndefined exampleMapper 1
     \<lparr>categoryId = Some ''missing'', subCategoryId = None, actionTypeId = None,
      payload = examplePayload\<rparr> ''u'' 3 exampleService =
   ([(CategoryRef, ''missing'')], Inl (CategoryNotFound ''missing''), exampleService) \<and>
   fst (createAuditLog RejectedAsUndefined exampleMapper 1
     \<lparr>categoryId = None, subCategoryId = None, actionTypeId = None,
      payload = examplePayload\<rparr> ''u'' 3 exampleService) = [] \<and>
   fst (createAuditLog RethrowFirstRejection exampleMapper 1
     \<lparr>categoryId = Some [], subCategoryId = None, actionTypeId = None,
      payload = examplePayload\<rparr> ''u'' 3 exampleService) = []"
proof -
  let ?dto = "\<lparr>categoryId = Some ''missing'', subCategoryId = None, actionTypeId = None,
      payload = examplePayload\<rparr>"
  let ?none = "\<lparr>categoryId = None, subCategoryId = None, actionTypeId = None,
      payload = examplePayload\<rparr>"
  let ?empty = "\<lparr>categoryId = Some [], subCategoryId = None, actionTypeId = None,
      payload = examplePayload\<rparr>"
  have missing: "findById 1 ''missing'' (categoryDal exampleService) = Inr None"
    by (simp add: findById_find exampleService_def exampleDal_def exampleTable_def exampleEntity_def)
  then have unresolved: "\<forall>entity. findById 1 ''missing'' (categoryDal exampleService) \<noteq> Inr (Some entity)"
    by simp
  note t = createAuditLog_conditional_resolution
    [of ?dto "''missing''" 1 exampleService RejectedAsUndefined exampleMapper "''u''" 3]
  from t missing unresolved have
    "fst (createAuditLog RejectedAsUndefined exampleMapper 1 ?dto ''u'' 3 exampleService) =
       [(CategoryRef, ''missing'')]"
    "snd (snd (createAuditLog RejectedAsUndefined exampleMapper 1 ?dto ''u'' 3 exampleService)) =
       exampleService"
    "fst (snd (createAuditLog RejectedAsUndefined exampleMapper 1 ?dto ''u'' 3 exampleService)) =
       Inl (CategoryNotFound ''missing'')"
    by simp_all
  then have first: "createAuditLog RejectedAsUndefined exampleMapper 1 ?dto ''u'' 3 exampleService =
      ([(CategoryRef, ''missing'')], Inl (CategoryNotFound ''missing''), exampleService)"
    by (metis prod.collapse)
  have second: "fst (createAuditLog RejectedAsUndefined exampleMapper 1 ?none ''u'' 3 exampleService) = []"
    using createAuditLog_conditional_resolution
      [of ?none "''missing''" 1 exampleService RejectedAsUndefined exampleMapper "''u''" 3]
    by simp
  have third: "fst (createAuditLog RethrowFirstRejection exampleMapper 1 ?empty ''u'' 3 exampleService) = []"
    using createAuditLog_conditional_resolution
      [of ?empty "''missing''" 1 exampleService RethrowFirstRejection exampleMapper "''u''" 3]
    by simp
  from first second third show ?thesis
    by (intro conjI)
qed

end
